theory Spec2Isabelle
  imports Main
begin

section \<open>The SDK handed to a step (core/sdk.py)\<close>

text \<open>
  A shallow embedding of \<^verbatim>\<open>continuedev/core/sdk.py\<close>. The file holds two classes,
  \<^verbatim>\<open>Models\<close> and \<^verbatim>\<open>ContinueSDK\<close>; both talk to two collaborators whose code lives
  elsewhere in the repository: the IDE protocol server (\<^verbatim>\<open>self.ide\<close>) and the autopilot
  (\<^verbatim>\<open>self.__autopilot\<close>). Both are parameters of the model. Every method is a function
  from the world before the call to its outcome, the world after the call and the list
  of calls the method itself made to its collaborators, in order.
\<close>

subsection \<open>Data\<close>

type_synonym path = string

text \<open>A \<^verbatim>\<open>ChatMessage\<close> object; \<open>ChatMessage\<close> below is its constructor.\<close>

record chat_message =
  content :: string
  role :: string

text \<open>\<^verbatim>\<open>Range\<close> and \<^verbatim>\<open>RangeInFile\<close> (models/main.py, models/filesystem.py).\<close>

record position =
  line :: nat
  character :: nat

record text_range =
  range_start :: position
  range_end :: position

record range_in_file =
  rif_filepath :: path
  rif_range :: text_range

text \<open>The variants of \<^verbatim>\<open>FileSystemEdit\<close> that sdk.py imports.\<close>

datatype file_system_edit =
    AddFile path string
  | DeleteFile path
  | AddDirectory path
  | DeleteDirectory path
  | FileEdit path text_range string

text \<open>
  The steps sdk.py constructs. A step carries an optional name, an optional description
  and the chat context that \<^verbatim>\<open>add_chat_context\<close> appends to.
\<close>

datatype step_kind =
    FileSystemEditStep file_system_edit
  | WaitForUserConfirmationStep string
  | ShellCommandsStep "string list" "string option" bool
  | Gpt35EditCodeStep "range_in_file list" string

record step =
  kind :: step_kind
  name :: "string option"
  description :: "string option"
  chat_context :: "chat_message list"

text \<open>
  \<^verbatim>\<open>SomeStep(..., description=description, **({'name': name} if name else {}))\<close>: the name
  is passed on only when it is truthy, so \<^verbatim>\<open>None\<close> and the empty string both leave the
  step's default name.
\<close>

definition new_step :: "step_kind \<Rightarrow> string option \<Rightarrow> string option \<Rightarrow> step" where
  "new_step k nm descr =
     \<lparr>kind = k,
      name = (case nm of None \<Rightarrow> None | Some n \<Rightarrow> if n = [] then None else Some n),
      description = descr,
      chat_context = []\<rparr>"

record history_node =
  step :: step

record history =
  timeline :: "history_node list"
  current_index :: int

text \<open>The clients \<^verbatim>\<open>Models\<close> builds. \<^verbatim>\<open>llm_id\<close> is the identity of the Python object.\<close>

datatype llm_class = HuggingFaceInferenceAPI | OpenAI

record llm =
  llm_id :: nat
  llm_class :: llm_class
  api_key :: string
  default_model :: "string option"

text \<open>What \<^verbatim>\<open>cached_property\<close> keeps in the instance dictionary of a \<^verbatim>\<open>Models\<close> object.\<close>

record models =
  starcoder_cached :: "llm option"
  gpt35_cached :: "llm option"

datatype error =
    NotImplementedError
  | IndexError
  | ValidationError
  | ContinueCustomException string string "step option"
  | Raised string

text \<open>
  Modelled from the spec: the type \<^verbatim>\<open>ChatMessageRole\<close> of core/main.py, which is not
  among the sources. The spec gives the role of a \<^verbatim>\<open>ChatMessage\<close> as an enumeration of
  \<^verbatim>\<open>user\<close>, \<^verbatim>\<open>assistant\<close> and \<^verbatim>\<open>system\<close>.
\<close>

definition ChatMessageRole :: "string list" where
  "ChatMessageRole = [''assistant'', ''user'', ''system'']"

text \<open>
  \<^verbatim>\<open>ChatMessage(content=..., role=...)\<close>: the constructor validates its fields, so a role
  outside \<^verbatim>\<open>ChatMessageRole\<close> raises \<^verbatim>\<open>ValidationError\<close> and no object is built.
\<close>

definition ChatMessage :: "string \<Rightarrow> string \<Rightarrow> error + chat_message" where
  "ChatMessage cont rl =
     (if rl \<in> set ChatMessageRole then Inr \<lparr>content = cont, role = rl\<rparr>
      else Inl ValidationError)"

text \<open>
  The world: the state of the IDE on the other side of the protocol, the history the
  autopilot owns, the \<^verbatim>\<open>Models\<close> instance of this SDK and the number of client objects
  allocated so far.
\<close>

record 'h world =
  host :: 'h
  history :: history
  models :: models
  allocated :: nat

text \<open>
  \<^verbatim>\<open>AbstractIdeProtocolServer\<close> as sdk.py uses it. Every request may raise and may change
  the IDE; \<^verbatim>\<open>workspace_directory\<close> is a plain attribute.
\<close>

record 'h ide =
  getWorkspaceDirectory :: "'h \<Rightarrow> (error + path) \<times> 'h"
  setFileOpen :: "path \<Rightarrow> 'h \<Rightarrow> (error + unit) \<times> 'h"
  readFile :: "path \<Rightarrow> 'h \<Rightarrow> (error + string) \<times> 'h"
  readRangeInFile :: "range_in_file \<Rightarrow> 'h \<Rightarrow> (error + string) \<times> 'h"
  applyFileSystemEdit :: "file_system_edit \<Rightarrow> 'h \<Rightarrow> (error + unit) \<times> 'h"
  getUserSecret :: "string \<Rightarrow> 'h \<Rightarrow> (error + string) \<times> 'h"
  getHighlightedCode :: "'h \<Rightarrow> (error + range_in_file list) \<times> 'h"
  workspace_directory :: "'h \<Rightarrow> path"

text \<open>
  The autopilot as sdk.py uses it: \<^verbatim>\<open>_run_singular_step\<close> runs a step against the whole
  world and yields its observation.
\<close>

record ('h, 'o) autopilot =
  run_singular_step :: "step \<Rightarrow> 'h world \<Rightarrow> (error + 'o) \<times> 'h world"

text \<open>The calls a method of the SDK makes to its collaborators.\<close>

datatype call =
    Call_getWorkspaceDirectory
  | Call_setFileOpen path
  | Call_readFile path
  | Call_readRangeInFile range_in_file
  | Call_applyFileSystemEdit file_system_edit
  | Call_getUserSecret string
  | Call_getHighlightedCode
  | Call_run_singular_step step

type_synonym ('w, 'a) sdk = "'w \<Rightarrow> (error + 'a) \<times> 'w \<times> call list"

definition outcome :: "(error + 'a) \<times> 'w \<times> call list \<Rightarrow> error + 'a" where
  "outcome r = fst r"

definition world_after :: "(error + 'a) \<times> 'w \<times> call list \<Rightarrow> 'w" where
  "world_after r = fst (snd r)"

definition calls :: "(error + 'a) \<times> 'w \<times> call list \<Rightarrow> call list" where
  "calls r = snd (snd r)"

subsection \<open>Sequencing\<close>

definition return :: "'a \<Rightarrow> ('w, 'a) sdk" where
  "return x w = (Inr x, w, [])"

definition raise :: "error \<Rightarrow> ('w, 'a) sdk" where
  "raise e w = (Inl e, w, [])"

text \<open>A computation that touches neither the world nor a collaborator.\<close>

definition local :: "error + 'a \<Rightarrow> ('w, 'a) sdk" where
  "local r w = (r, w, [])"

text \<open>\<^verbatim>\<open>x = await m; f(x)\<close>: an exception of \<open>m\<close> ends the method.\<close>

definition await :: "('w, 'a) sdk \<Rightarrow> ('a \<Rightarrow> ('w, 'b) sdk) \<Rightarrow> ('w, 'b) sdk" where
  "await m f w =
     (case m w of
        (Inl e, w1, t1) \<Rightarrow> (Inl e, w1, t1)
      | (Inr x, w1, t1) \<Rightarrow> (case f x w1 of (r, w2, t2) \<Rightarrow> (r, w2, t1 @ t2)))"

text \<open>A request to the IDE: it acts on the host component only.\<close>

definition ide_call :: "call \<Rightarrow> ('h \<Rightarrow> (error + 'a) \<times> 'h) \<Rightarrow> ('h world, 'a) sdk" where
  "ide_call c f w = (case f (host w) of (r, h1) \<Rightarrow> (r, w\<lparr>host := h1\<rparr>, [c]))"

subsection \<open>os.path (posixpath)\<close>

definition os_path_isabs :: "path \<Rightarrow> bool" where
  "os_path_isabs p = (case p of [] \<Rightarrow> False | c # _ \<Rightarrow> c = CHR ''/'')"

definition join2 :: "path \<Rightarrow> path \<Rightarrow> path" where
  "join2 a b =
     (if os_path_isabs b then b
      else if a = [] \<or> last a = CHR ''/'' then a @ b
      else a @ ''/'' @ b)"

definition os_path_join :: "path \<Rightarrow> path list \<Rightarrow> path" where
  "os_path_join a ps = foldl join2 a ps"

subsection \<open>ContinueSDK\<close>

definition ensure_absolute_path :: "'h ide \<Rightarrow> path \<Rightarrow> ('h world, path) sdk" where
  "ensure_absolute_path i p =
     (if os_path_isabs p then return p
      else await (ide_call Call_getWorkspaceDirectory (getWorkspaceDirectory i))
             (\<lambda>w. return (os_path_join w [p])))"

definition run_step :: "('h, 'o) autopilot \<Rightarrow> step \<Rightarrow> ('h world, 'o) sdk" where
  "run_step ap s w =
     (case run_singular_step ap s w of (r, w1) \<Rightarrow> (r, w1, [Call_run_singular_step s]))"

definition set_loading_message :: "string \<Rightarrow> ('h world, unit) sdk" where
  "set_loading_message message = raise NotImplementedError"

definition apply_filesystem_edit ::
  "('h, 'o) autopilot \<Rightarrow> file_system_edit \<Rightarrow> string option \<Rightarrow> string option \<Rightarrow> ('h world, 'o) sdk" where
  "apply_filesystem_edit ap edit nm descr = run_step ap (new_step (FileSystemEditStep edit) nm descr)"

definition wait_for_user_confirmation :: "('h, 'o) autopilot \<Rightarrow> string \<Rightarrow> ('h world, 'o) sdk" where
  "wait_for_user_confirmation ap prompt =
     run_step ap (new_step (WaitForUserConfirmationStep prompt) None None)"

text \<open>
  \<^verbatim>\<open>run\<close>: a single command becomes a one-element list; the result is the \<^verbatim>\<open>text\<close>
  attribute of the observation, read by \<open>text_of\<close>.
\<close>

definition run ::
  "('h, 'o) autopilot \<Rightarrow> ('o \<Rightarrow> string) \<Rightarrow> string list + string \<Rightarrow> string option \<Rightarrow>
   string option \<Rightarrow> string option \<Rightarrow> bool \<Rightarrow> ('h world, string) sdk" where
  "run ap text_of commands cwd nm descr handle_error =
     (let cmds = (case commands of Inl cs \<Rightarrow> cs | Inr c \<Rightarrow> [c])
      in await (run_step ap (new_step (ShellCommandsStep cmds cwd handle_error) nm descr))
           (\<lambda>obs. return (text_of obs)))"

text \<open>\<^verbatim>\<open>edit_file\<close>; \<open>from_entire_file\<close> stands for \<^verbatim>\<open>RangeInFile.from_entire_file\<close>.\<close>

definition edit_file ::
  "'h ide \<Rightarrow> ('h, 'o) autopilot \<Rightarrow> (path \<Rightarrow> string \<Rightarrow> range_in_file) \<Rightarrow> path \<Rightarrow> string \<Rightarrow>
   string option \<Rightarrow> string option \<Rightarrow> text_range option \<Rightarrow> ('h world, unit) sdk" where
  "edit_file i ap from_entire_file filename prompt nm descr rng =
     await (ensure_absolute_path i filename) (\<lambda>filepath.
     await (ide_call (Call_setFileOpen filepath) (setFileOpen i filepath)) (\<lambda>_.
     await (ide_call (Call_readFile filepath) (readFile i filepath)) (\<lambda>contents.
     await (run_step ap (new_step
              (Gpt35EditCodeStep
                 [case rng of
                    Some r \<Rightarrow> \<lparr>rif_filepath = filepath, rif_range = r\<rparr>
                  | None \<Rightarrow> from_entire_file filepath contents]
                 prompt) nm descr))
       (\<lambda>_. return ()))))"

text \<open>\<^verbatim>\<open>append_to_file\<close>; \<open>from_append\<close> stands for \<^verbatim>\<open>FileEdit.from_append\<close>.\<close>

definition append_to_file ::
  "'h ide \<Rightarrow> (path \<Rightarrow> string \<Rightarrow> string \<Rightarrow> file_system_edit) \<Rightarrow> path \<Rightarrow> string \<Rightarrow> ('h world, unit) sdk" where
  "append_to_file i from_append filename cont =
     await (ensure_absolute_path i filename) (\<lambda>filepath.
     await (ide_call (Call_readFile filepath) (readFile i filepath)) (\<lambda>previous_content.
     let file_edit = from_append filepath previous_content cont
     in ide_call (Call_applyFileSystemEdit file_edit) (applyFileSystemEdit i file_edit)))"

text \<open>
  \<^verbatim>\<open>add_file\<close>; the content may be \<^verbatim>\<open>None\<close>, which the constructor of \<^verbatim>\<open>AddFile\<close>
  (its content is a string) refuses with \<^verbatim>\<open>ValidationError\<close>, after the path is resolved.
\<close>

definition add_file ::
  "'h ide \<Rightarrow> ('h, 'o) autopilot \<Rightarrow> path \<Rightarrow> string option \<Rightarrow> ('h world, 'o) sdk" where
  "add_file i ap filename cont =
     await (ensure_absolute_path i filename) (\<lambda>filepath.
     case cont of
       None \<Rightarrow> raise ValidationError
     | Some c \<Rightarrow> run_step ap (new_step (FileSystemEditStep (AddFile filepath c)) None None))"

definition delete_file :: "'h ide \<Rightarrow> ('h, 'o) autopilot \<Rightarrow> path \<Rightarrow> ('h world, 'o) sdk" where
  "delete_file i ap filename =
     await (ensure_absolute_path i filename) (\<lambda>filepath.
     run_step ap (new_step (FileSystemEditStep (DeleteFile filename)) None None))"

definition add_directory :: "'h ide \<Rightarrow> ('h, 'o) autopilot \<Rightarrow> path \<Rightarrow> ('h world, 'o) sdk" where
  "add_directory i ap p =
     await (ensure_absolute_path i p) (\<lambda>filepath.
     run_step ap (new_step (FileSystemEditStep (AddDirectory p)) None None))"

definition delete_directory :: "'h ide \<Rightarrow> ('h, 'o) autopilot \<Rightarrow> path \<Rightarrow> ('h world, 'o) sdk" where
  "delete_directory i ap p =
     await (ensure_absolute_path i p) (\<lambda>filepath.
     run_step ap (new_step (FileSystemEditStep (DeleteDirectory p)) None None))"

definition get_user_secret :: "'h ide \<Rightarrow> string \<Rightarrow> string \<Rightarrow> ('h world, string) sdk" where
  "get_user_secret i env_var prompt = ide_call (Call_getUserSecret env_var) (getUserSecret i env_var)"

text \<open>
  The \<^verbatim>\<open>config\<close> property. \<open>os_path_exists\<close> is the file system the process sees,
  \<open>load_config\<close> and \<open>default_config\<close> stand for \<^verbatim>\<open>load_config\<close> and \<^verbatim>\<open>ContinueConfig()\<close>
  of core/config.py; a file that does not load raises.
\<close>

definition config ::
  "'h ide \<Rightarrow> (path \<Rightarrow> bool) \<Rightarrow> (path \<Rightarrow> error + 'c) \<Rightarrow> 'c \<Rightarrow> ('h world, 'c) sdk" where
  "config i os_path_exists load_config default_config w =
     (let dir = workspace_directory i (host w);
          yaml_path = os_path_join dir [''.continue'', ''config.yaml''];
          json_path = os_path_join dir [''.continue'', ''config.json'']
      in if os_path_exists yaml_path then (load_config yaml_path, w, [])
         else if os_path_exists json_path then (load_config json_path, w, [])
         else return default_config w)"

definition raise_exception :: "string \<Rightarrow> string \<Rightarrow> step option \<Rightarrow> ('h world, unit) sdk" where
  "raise_exception message title with_step = raise (ContinueCustomException message title with_step)"

text \<open>
  Python's \<^verbatim>\<open>xs[i]\<close>: a negative index counts from the end, an index out of range raises
  \<^verbatim>\<open>IndexError\<close>. The result is the position read.
\<close>

definition py_index :: "'a list \<Rightarrow> int \<Rightarrow> error + nat" where
  "py_index xs i =
     (if 0 \<le> i \<and> i < int (length xs) then Inr (nat i)
      else if i < 0 \<and> - int (length xs) \<le> i then Inr (nat (int (length xs) + i))
      else Inl IndexError)"

text \<open>The default of the \<^verbatim>\<open>role\<close> parameter of \<^verbatim>\<open>add_chat_context\<close>, as the source spells it.\<close>

definition add_chat_context_default_role :: string where
  "add_chat_context_default_role = ''assistent''"

text \<open>
  \<^verbatim>\<open>add_chat_context\<close>; \<open>None\<close> for the role is a call that omits the argument. Python
  evaluates \<^verbatim>\<open>timeline[current_index].step.chat_context.append\<close> first, then builds the
  \<^verbatim>\<open>ChatMessage\<close>, then appends it.
\<close>

definition add_chat_context :: "string \<Rightarrow> string option \<Rightarrow> ('h world, unit) sdk" where
  "add_chat_context cont rl w =
     (let r = (case rl of None \<Rightarrow> add_chat_context_default_role | Some x \<Rightarrow> x);
          h = history w
      in case py_index (timeline h) (current_index h) of
           Inl e \<Rightarrow> raise e w
         | Inr j \<Rightarrow>
             (case ChatMessage cont r of
                Inl e \<Rightarrow> raise e w
              | Inr msg \<Rightarrow>
                  (let node = timeline h ! j;
                       s = step node;
                       s1 = s\<lparr>chat_context := chat_context s @ [msg]\<rparr>
                   in return ()
                        (w\<lparr>history := h\<lparr>timeline := (timeline h)[j := node\<lparr>step := s1\<rparr>]\<rparr>\<rparr>))))"

text \<open>
  The content \<^verbatim>\<open>get_chat_context\<close> builds for one highlighted range, the f-string
  \<^verbatim>\<open>f"The following code is highlighted:\n```\n{code}\n```"\<close>.
\<close>

definition highlighted_text :: "string \<Rightarrow> string" where
  "highlighted_text code =
     ''The following code is highlighted:\<newline>```\<newline>'' @ code @ ''\<newline>```''"

text \<open>The \<^verbatim>\<open>for rif in highlighted_code\<close> loop, appending to \<^verbatim>\<open>history_context\<close>.\<close>

fun get_chat_context_loop ::
  "'h ide \<Rightarrow> range_in_file list \<Rightarrow> chat_message list \<Rightarrow> ('h world, chat_message list) sdk" where
  "get_chat_context_loop i [] history_context = return history_context"
| "get_chat_context_loop i (rif # rifs) history_context =
     await (ide_call (Call_readRangeInFile rif) (readRangeInFile i rif)) (\<lambda>code.
     await (local (ChatMessage (highlighted_text code) ''user'')) (\<lambda>msg.
     get_chat_context_loop i rifs (history_context @ [msg])))"

text \<open>\<^verbatim>\<open>get_chat_context\<close>; \<open>to_chat_history\<close> stands for \<^verbatim>\<open>History.to_chat_history\<close>.\<close>

definition get_chat_context ::
  "'h ide \<Rightarrow> (history \<Rightarrow> chat_message list) \<Rightarrow> ('h world, chat_message list) sdk" where
  "get_chat_context i to_chat_history w =
     (let history_context = to_chat_history (history w)
      in await (ide_call Call_getHighlightedCode (getHighlightedCode i))
           (\<lambda>highlighted_code. get_chat_context_loop i highlighted_code history_context) w)"

subsection \<open>Models\<close>

text \<open>Constructing a client allocates a new object.\<close>

definition new_llm :: "llm_class \<Rightarrow> string \<Rightarrow> string option \<Rightarrow> ('h world, llm) sdk" where
  "new_llm c k m w =
     (Inr \<lparr>llm_id = allocated w, llm_class = c, api_key = k, default_model = m\<rparr>,
      w\<lparr>allocated := Suc (allocated w)\<rparr>, [])"

definition load_starcoder :: "'h ide \<Rightarrow> ('h world, llm) sdk" where
  "load_starcoder i =
     await (get_user_secret i ''HUGGING_FACE_TOKEN''
              ''Please add your Hugging Face token to the .env file'')
       (\<lambda>key. new_llm HuggingFaceInferenceAPI key None)"

definition load_gpt35 :: "'h ide \<Rightarrow> ('h world, llm) sdk" where
  "load_gpt35 i =
     await (get_user_secret i ''OPENAI_API_KEY''
              ''Please add your OpenAI API key to the .env file'')
       (\<lambda>key. new_llm OpenAI key (Some ''gpt-3.5-turbo''))"

text \<open>
  \<^verbatim>\<open>cached_property\<close>: a value found in the instance is returned as it is; otherwise the
  body runs (\<^verbatim>\<open>run_until_complete\<close> drives the coroutine to its end) and its value is
  stored. A body that raises stores nothing.
\<close>

definition starcoder :: "'h ide \<Rightarrow> ('h world, llm) sdk" where
  "starcoder i w =
     (case starcoder_cached (models w) of
        Some r \<Rightarrow> return r w
      | None \<Rightarrow>
          await (load_starcoder i)
            (\<lambda>r w1. return r (w1\<lparr>models := (models w1)\<lparr>starcoder_cached := Some r\<rparr>\<rparr>)) w)"

definition gpt35 :: "'h ide \<Rightarrow> ('h world, llm) sdk" where
  "gpt35 i w =
     (case gpt35_cached (models w) of
        Some r \<Rightarrow> return r w
      | None \<Rightarrow>
          await (load_gpt35 i)
            (\<lambda>r w1. return r (w1\<lparr>models := (models w1)\<lparr>gpt35_cached := Some r\<rparr>\<rparr>)) w)"

subsection \<open>Observing a call\<close>

text \<open>The steps a method handed to the autopilot, and the secrets it asked the IDE for.\<close>

fun steps_run :: "call list \<Rightarrow> step list" where
  "steps_run [] = []"
| "steps_run (Call_run_singular_step s # cs) = s # steps_run cs"
| "steps_run (_ # cs) = steps_run cs"

fun secrets_fetched :: "call list \<Rightarrow> string list" where
  "secrets_fetched [] = []"
| "secrets_fetched (Call_getUserSecret v # cs) = v # secrets_fetched cs"
| "secrets_fetched (_ # cs) = secrets_fetched cs"

text \<open>
  What the IDE answers when it is asked for each range in turn, starting from the IDE
  state \<open>h\<close>: the codes, in the order of the ranges, or the first failure.
\<close>

fun read_ranges :: "'h ide \<Rightarrow> range_in_file list \<Rightarrow> 'h \<Rightarrow> (error + string list) \<times> 'h" where
  "read_ranges i [] h = (Inr [], h)"
| "read_ranges i (rif # rifs) h =
     (case readRangeInFile i rif h of
        (Inl e, h1) \<Rightarrow> (Inl e, h1)
      | (Inr code, h1) \<Rightarrow>
          (case read_ranges i rifs h1 of
             (Inl e, h2) \<Rightarrow> (Inl e, h2)
           | (Inr codes, h2) \<Rightarrow> (Inr (code # codes), h2)))"

subsection \<open>A sample IDE, autopilot and world\<close>

text \<open>
  An IDE whose workspace is \<^verbatim>\<open>/ws\<close> and whose state counts the requests it served, an
  autopilot that records each step it is given as a new history node, and a world with
  one node in its history and nothing cached.
\<close>

definition sample_range :: "nat \<Rightarrow> text_range" where
  "sample_range n =
     \<lparr>range_start = \<lparr>line = n, character = 0\<rparr>, range_end = \<lparr>line = Suc n, character = 0\<rparr>\<rparr>"

definition sample_highlights :: "range_in_file list" where
  "sample_highlights =
     [\<lparr>rif_filepath = ''/ws/a.py'', rif_range = sample_range 1\<rparr>,
      \<lparr>rif_filepath = ''/ws/b.py'', rif_range = sample_range 7\<rparr>]"

definition sample_ide :: "nat ide" where
  "sample_ide =
     \<lparr>getWorkspaceDirectory = (\<lambda>h. (Inr ''/ws'', Suc h)),
      setFileOpen = (\<lambda>p h. (Inr (), Suc h)),
      readFile = (\<lambda>p h. (Inr ''old'', Suc h)),
      readRangeInFile = (\<lambda>rif h. (Inr (''code of '' @ rif_filepath rif), Suc h)),
      applyFileSystemEdit = (\<lambda>e h. (Inr (), Suc h)),
      getUserSecret = (\<lambda>v h. (Inr (''secret for '' @ v), Suc h)),
      getHighlightedCode = (\<lambda>h. (Inr sample_highlights, Suc h)),
      workspace_directory = (\<lambda>h. ''/ws'')\<rparr>"

definition sample_autopilot :: "(nat, string) autopilot" where
  "sample_autopilot =
     \<lparr>run_singular_step = (\<lambda>s w.
        (Inr ''done'',
         w\<lparr>history :=
             \<lparr>timeline = timeline (history w) @ [\<lparr>step = s\<rparr>],
              current_index = int (length (timeline (history w)))\<rparr>\<rparr>))\<rparr>"

definition sample_world :: "nat world" where
  "sample_world =
     \<lparr>host = 0,
      history =
        \<lparr>timeline = [\<lparr>step = new_step (WaitForUserConfirmationStep ''go'') None None\<rparr>],
         current_index = 0\<rparr>,
      models = \<lparr>starcoder_cached = None, gpt35_cached = None\<rparr>,
      allocated = 0\<rparr>"

definition sample_from_append :: "path \<Rightarrow> string \<Rightarrow> string \<Rightarrow> file_system_edit" where
  "sample_from_append filepath previous_content appended =
     FileEdit filepath (sample_range (length previous_content)) appended"

definition sample_to_chat_history :: "history \<Rightarrow> chat_message list" where
  "sample_to_chat_history h =
     concat (map (\<lambda>n. \<lparr>content = ''ran a step'', role = ''assistant''\<rparr> # chat_context (step n))
               (timeline h))"

text \<open>The same IDE with nothing highlighted.\<close>

definition quiet_ide :: "nat ide" where
  "quiet_ide = sample_ide\<lparr>getHighlightedCode := (\<lambda>h. (Inr [], Suc h))\<rparr>"

text \<open>The clients the sample IDE's secrets lead to.\<close>

definition sample_starcoder :: llm where
  "sample_starcoder =
     \<lparr>llm_id = 0, llm_class = HuggingFaceInferenceAPI,
      api_key = ''secret for HUGGING_FACE_TOKEN'', default_model = None\<rparr>"

definition sample_gpt35 :: llm where
  "sample_gpt35 =
     \<lparr>llm_id = 0, llm_class = OpenAI,
      api_key = ''secret for OPENAI_API_KEY'', default_model = Some ''gpt-3.5-turbo''\<rparr>"

text \<open>A loader that answers with the path it was given, and three states of the disk.\<close>

definition sample_load_config :: "path \<Rightarrow> error + string" where
  "sample_load_config p = Inr (''parsed '' @ p)"

definition disk_with_both :: "path \<Rightarrow> bool" where
  "disk_with_both p = (p = ''/ws/.continue/config.yaml'' \<or> p = ''/ws/.continue/config.json'')"

definition disk_with_json :: "path \<Rightarrow> bool" where
  "disk_with_json p = (p = ''/ws/.continue/config.json'')"

definition disk_with_neither :: "path \<Rightarrow> bool" where
  "disk_with_neither p = False"

section \<open>Properties\<close>

subsection \<open>Sequencing\<close>

lemma await_Inr:
  "m w = (Inr x, w1, t1) \<Longrightarrow>
   await m f w = (fst (f x w1), fst (snd (f x w1)), t1 @ snd (snd (f x w1)))"
  by (simp add: await_def split: prod.splits)

lemma await_Inl: "m w = (Inl e, w1, t1) \<Longrightarrow> await m f w = (Inl e, w1, t1)"
  by (simp add: await_def)

subsection \<open>Path resolution\<close>

text \<open>
  C4. \<^verbatim>\<open>_ensure_absolute_path\<close> returns an absolute path as it is, without asking the
  IDE; for a relative path \<open>p\<close> and a workspace root \<open>root\<close> reported by the IDE it returns
  \<^verbatim>\<open>os.path.join(root, p)\<close>, after the one request for the workspace directory.
\<close>

theorem ensure_absolute_path_resolves:
  "(os_path_isabs p \<longrightarrow> ensure_absolute_path i p w = (Inr p, w, []))
   \<and> (\<not> os_path_isabs p \<and> getWorkspaceDirectory i (host w) = (Inr root, h1) \<longrightarrow>
        ensure_absolute_path i p w
          = (Inr (os_path_join root [p]), w\<lparr>host := h1\<rparr>, [Call_getWorkspaceDirectory]))"
  by (simp add: ensure_absolute_path_def return_def await_def ide_call_def)

theorem ensure_absolute_path_resolves_witness:
  "os_path_isabs ''/etc/hosts''
   \<and> outcome (ensure_absolute_path sample_ide ''/etc/hosts'' sample_world) = Inr ''/etc/hosts''
   \<and> \<not> os_path_isabs ''notes.txt''
   \<and> getWorkspaceDirectory sample_ide (host sample_world) = (Inr ''/ws'', 1)
   \<and> outcome (ensure_absolute_path sample_ide ''notes.txt'' sample_world) = Inr ''/ws/notes.txt''"
  using ensure_absolute_path_resolves [of "''/etc/hosts''" sample_ide sample_world]
    ensure_absolute_path_resolves [of "''notes.txt''" sample_ide sample_world "''/ws''" 1]
  by (simp add: os_path_isabs_def sample_ide_def sample_world_def outcome_def
      os_path_join_def join2_def)

subsection \<open>The stub and the secret\<close>

text \<open>
  C9. \<^verbatim>\<open>set_loading_message\<close> raises \<^verbatim>\<open>NotImplementedError\<close> for every message: its
  outcome is that error, never a value, and it changes nothing and calls nobody.
\<close>

theorem set_loading_message_not_implemented:
  "outcome (set_loading_message message w) = Inl NotImplementedError
   \<and> world_after (set_loading_message message w) = w
   \<and> calls (set_loading_message message w) = []"
  by (simp add: set_loading_message_def raise_def outcome_def world_after_def calls_def)

text \<open>
  C10. \<^verbatim>\<open>get_user_secret\<close> does not depend on its prompt: two calls with the same
  \<^verbatim>\<open>env_var\<close> in the same world agree in outcome, world and calls, whatever the prompts
  are. The one request it makes carries only \<^verbatim>\<open>env_var\<close>, and its outcome is the IDE's
  answer to that request.
\<close>

theorem get_user_secret_ignores_prompt:
  "get_user_secret i env_var prompt1 w = get_user_secret i env_var prompt2 w
   \<and> calls (get_user_secret i env_var prompt1 w) = [Call_getUserSecret env_var]
   \<and> outcome (get_user_secret i env_var prompt1 w) = fst (getUserSecret i env_var (host w))"
  by (simp add: get_user_secret_def ide_call_def calls_def outcome_def split: prod.splits)

subsection \<open>Edits that go through the autopilot\<close>

lemma steps_run_append: "steps_run (xs @ ys) = steps_run xs @ steps_run ys"
  by (induction xs rule: steps_run.induct) simp_all

lemma ensure_absolute_path_runs_no_step: "steps_run (calls (ensure_absolute_path i p w)) = []"
  by (simp add: ensure_absolute_path_def return_def await_def ide_call_def calls_def
      split: prod.splits sum.splits)

lemma await_run_step:
  assumes "outcome (m w) = Inr x"
  shows "outcome (await m (\<lambda>_. run_step ap s) w) = fst (run_singular_step ap s (world_after (m w)))"
    and "world_after (await m (\<lambda>_. run_step ap s) w) = snd (run_singular_step ap s (world_after (m w)))"
    and "calls (await m (\<lambda>_. run_step ap s) w) = calls (m w) @ [Call_run_singular_step s]"
  using assms
  by (auto simp: await_def run_step_def outcome_def world_after_def calls_def split: prod.splits sum.splits)

text \<open>
  C2. Whenever the path resolution at the start of \<^verbatim>\<open>delete_file\<close> returns (the
  filename is absolute, or the IDE reports its workspace directory), \<^verbatim>\<open>delete_file\<close>
  hands the autopilot exactly one step, a \<^verbatim>\<open>FileSystemEditStep\<close> whose edit is
  \<^verbatim>\<open>DeleteFile\<close> of the filename as it was passed, not of the resolved path; its
  outcome and the world it leaves are those of the autopilot running that step.
\<close>

theorem delete_file_keeps_filename:
  assumes "outcome (ensure_absolute_path i filename w) = Inr filepath"
  shows "steps_run (calls (delete_file i ap filename w))
           = [new_step (FileSystemEditStep (DeleteFile filename)) None None]
         \<and> outcome (delete_file i ap filename w)
           = fst (run_singular_step ap (new_step (FileSystemEditStep (DeleteFile filename)) None None)
                   (world_after (ensure_absolute_path i filename w)))
         \<and> world_after (delete_file i ap filename w)
           = snd (run_singular_step ap (new_step (FileSystemEditStep (DeleteFile filename)) None None)
                   (world_after (ensure_absolute_path i filename w)))"
  using assms
  by (simp add: delete_file_def await_run_step steps_run_append ensure_absolute_path_runs_no_step)

theorem delete_file_keeps_filename_witness:
  "outcome (ensure_absolute_path sample_ide ''notes.txt'' sample_world) = Inr ''/ws/notes.txt''
   \<and> map kind (steps_run (calls (delete_file sample_ide sample_autopilot ''notes.txt'' sample_world)))
       = [FileSystemEditStep (DeleteFile ''notes.txt'')]
   \<and> map step (timeline (history (world_after
         (delete_file sample_ide sample_autopilot ''notes.txt'' sample_world))))
       = [new_step (WaitForUserConfirmationStep ''go'') None None,
          new_step (FileSystemEditStep (DeleteFile ''notes.txt'')) None None]"
proof -
  have h: "outcome (ensure_absolute_path sample_ide ''notes.txt'' sample_world) = Inr ''/ws/notes.txt''"
    by (simp add: ensure_absolute_path_def os_path_isabs_def await_def ide_call_def return_def
        sample_ide_def sample_world_def outcome_def os_path_join_def join2_def)
  have w: "world_after (ensure_absolute_path sample_ide ''notes.txt'' sample_world)
            = sample_world\<lparr>host := 1\<rparr>"
    by (simp add: ensure_absolute_path_def os_path_isabs_def await_def ide_call_def return_def
        sample_ide_def sample_world_def world_after_def)
  note t = delete_file_keeps_filename [OF h, of sample_autopilot, unfolded w]
  show ?thesis
    by (simp only: h t) (simp add: new_step_def sample_autopilot_def sample_world_def)
qed

text \<open>
  C5. Whenever the path resolution returns, \<^verbatim>\<open>add_directory\<close> and
  \<^verbatim>\<open>delete_directory\<close> each hand the autopilot exactly one step, a
  \<^verbatim>\<open>FileSystemEditStep\<close> whose edit (\<^verbatim>\<open>AddDirectory\<close>, \<^verbatim>\<open>DeleteDirectory\<close>) carries
  the path as it was passed, not the resolved one.
\<close>

theorem directory_edits_keep_path:
  assumes "outcome (ensure_absolute_path i p w) = Inr filepath"
  shows "steps_run (calls (add_directory i ap p w))
           = [new_step (FileSystemEditStep (AddDirectory p)) None None]
         \<and> outcome (add_directory i ap p w)
           = fst (run_singular_step ap (new_step (FileSystemEditStep (AddDirectory p)) None None)
                   (world_after (ensure_absolute_path i p w)))
         \<and> world_after (add_directory i ap p w)
           = snd (run_singular_step ap (new_step (FileSystemEditStep (AddDirectory p)) None None)
                   (world_after (ensure_absolute_path i p w)))
         \<and> steps_run (calls (delete_directory i ap p w))
           = [new_step (FileSystemEditStep (DeleteDirectory p)) None None]
         \<and> outcome (delete_directory i ap p w)
           = fst (run_singular_step ap (new_step (FileSystemEditStep (DeleteDirectory p)) None None)
                   (world_after (ensure_absolute_path i p w)))
         \<and> world_after (delete_directory i ap p w)
           = snd (run_singular_step ap (new_step (FileSystemEditStep (DeleteDirectory p)) None None)
                   (world_after (ensure_absolute_path i p w)))"
  using assms
  by (simp add: add_directory_def delete_directory_def await_run_step steps_run_append
      ensure_absolute_path_runs_no_step)

theorem directory_edits_keep_path_witness:
  "outcome (ensure_absolute_path sample_ide ''build'' sample_world) = Inr ''/ws/build''
   \<and> map kind (steps_run (calls (add_directory sample_ide sample_autopilot ''build'' sample_world)))
       = [FileSystemEditStep (AddDirectory ''build'')]
   \<and> map kind (steps_run (calls (delete_directory sample_ide sample_autopilot ''build'' sample_world)))
       = [FileSystemEditStep (DeleteDirectory ''build'')]
   \<and> map (\<lambda>n. kind (step n)) (timeline (history (world_after
         (delete_directory sample_ide sample_autopilot ''build'' sample_world))))
       = [WaitForUserConfirmationStep ''go'', FileSystemEditStep (DeleteDirectory ''build'')]"
proof -
  have h: "outcome (ensure_absolute_path sample_ide ''build'' sample_world) = Inr ''/ws/build''"
    by (simp add: ensure_absolute_path_def os_path_isabs_def await_def ide_call_def return_def
        sample_ide_def sample_world_def outcome_def os_path_join_def join2_def)
  have w: "world_after (ensure_absolute_path sample_ide ''build'' sample_world)
            = sample_world\<lparr>host := 1\<rparr>"
    by (simp add: ensure_absolute_path_def os_path_isabs_def await_def ide_call_def return_def
        sample_ide_def sample_world_def world_after_def)
  note t = directory_edits_keep_path [OF h, of sample_autopilot, unfolded w]
  show ?thesis
    by (simp only: h t) (simp add: new_step_def sample_autopilot_def sample_world_def)
qed

subsection \<open>The append that goes past the autopilot\<close>

lemma ide_call_history: "history (world_after (ide_call c f w)) = history w"
  by (simp add: ide_call_def world_after_def split: prod.splits)

lemma ensure_absolute_path_history:
  "history (world_after (ensure_absolute_path i p w)) = history w"
  by (simp add: ensure_absolute_path_def return_def await_def ide_call_def world_after_def
      split: prod.splits sum.splits)

text \<open>
  C8. \<^verbatim>\<open>append_to_file\<close> never hands a step to the autopilot and leaves the history as
  it found it, whatever the IDE answers. When the path resolves and the file can be read,
  its calls are those of the resolution, then \<^verbatim>\<open>readFile\<close>, then
  \<^verbatim>\<open>applyFileSystemEdit\<close> on the IDE with the edit \<^verbatim>\<open>FileEdit.from_append\<close> built from
  the resolved path, the content read and the content to append; its outcome is the
  IDE's answer to that last request.
\<close>

theorem append_to_file_bypasses_history:
  "history (world_after (append_to_file i from_append filename cont w)) = history w
   \<and> steps_run (calls (append_to_file i from_append filename cont w)) = []
   \<and> (ensure_absolute_path i filename w = (Inr filepath, w1, t1)
        \<and> readFile i filepath (host w1) = (Inr previous_content, h2) \<longrightarrow>
      calls (append_to_file i from_append filename cont w)
        = t1 @ [Call_readFile filepath,
                Call_applyFileSystemEdit (from_append filepath previous_content cont)]
      \<and> outcome (append_to_file i from_append filename cont w)
        = fst (applyFileSystemEdit i (from_append filepath previous_content cont) h2))"
proof -
  have eap: "history (fst (snd (ensure_absolute_path i filename w))) = history w"
    "steps_run (snd (snd (ensure_absolute_path i filename w))) = []"
    using ensure_absolute_path_history [of i filename w]
      ensure_absolute_path_runs_no_step [of i filename w]
    by (simp_all add: world_after_def calls_def)
  show ?thesis
    using eap
    by (auto simp: append_to_file_def await_def ide_call_def world_after_def calls_def
        outcome_def Let_def steps_run_append split: prod.splits sum.splits)
qed

theorem append_to_file_bypasses_history_witness:
  "ensure_absolute_path sample_ide ''log.txt'' sample_world
     = (Inr ''/ws/log.txt'', sample_world\<lparr>host := 1\<rparr>, [Call_getWorkspaceDirectory])
   \<and> readFile sample_ide ''/ws/log.txt'' (host (sample_world\<lparr>host := 1\<rparr>)) = (Inr ''old'', 2)
   \<and> calls (append_to_file sample_ide sample_from_append ''log.txt'' ''new'' sample_world)
       = [Call_getWorkspaceDirectory, Call_readFile ''/ws/log.txt'',
          Call_applyFileSystemEdit (FileEdit ''/ws/log.txt'' (sample_range 3) ''new'')]
   \<and> outcome (append_to_file sample_ide sample_from_append ''log.txt'' ''new'' sample_world) = Inr ()
   \<and> history (world_after (append_to_file sample_ide sample_from_append ''log.txt'' ''new'' sample_world))
       = history sample_world"
proof -
  have e: "ensure_absolute_path sample_ide ''log.txt'' sample_world
     = (Inr ''/ws/log.txt'', sample_world\<lparr>host := 1\<rparr>, [Call_getWorkspaceDirectory])"
    by (simp add: ensure_absolute_path_def os_path_isabs_def await_def ide_call_def return_def
        sample_ide_def sample_world_def os_path_join_def join2_def)
  have r: "readFile sample_ide ''/ws/log.txt'' (host (sample_world\<lparr>host := 1\<rparr>)) = (Inr ''old'', 2)"
    by (simp add: sample_ide_def)
  note t = append_to_file_bypasses_history [of sample_ide sample_from_append "''log.txt''" "''new''"
      sample_world "''/ws/log.txt''" "sample_world\<lparr>host := 1\<rparr>" "[Call_getWorkspaceDirectory]"
      "''old''" 2]
  from t e r have k:
    "calls (append_to_file sample_ide sample_from_append ''log.txt'' ''new'' sample_world)
       = [Call_getWorkspaceDirectory, Call_readFile ''/ws/log.txt'',
          Call_applyFileSystemEdit (sample_from_append ''/ws/log.txt'' ''old'' ''new'')]"
    "outcome (append_to_file sample_ide sample_from_append ''log.txt'' ''new'' sample_world)
       = fst (applyFileSystemEdit sample_ide (sample_from_append ''/ws/log.txt'' ''old'' ''new'') 2)"
    "history (world_after (append_to_file sample_ide sample_from_append ''log.txt'' ''new'' sample_world))
       = history sample_world"
    by simp_all
  have a: "fst (applyFileSystemEdit sample_ide x 2) = Inr ()" for x
    by (simp add: sample_ide_def)
  have f: "sample_from_append ''/ws/log.txt'' ''old'' ''new''
       = FileEdit ''/ws/log.txt'' (sample_range 3) ''new''"
    by (simp add: sample_from_append_def numeral_3_eq_3)
  show ?thesis
    by (simp only: e r k a f)
qed

subsection \<open>The configuration\<close>

lemma config_paths:
  "dir \<noteq> [] \<Longrightarrow> last dir \<noteq> CHR ''/'' \<Longrightarrow>
   os_path_join dir [''.continue'', ''config.yaml''] = dir @ ''/.continue/config.yaml''
   \<and> os_path_join dir [''.continue'', ''config.json''] = dir @ ''/.continue/config.json''"
  by (simp add: os_path_join_def join2_def os_path_isabs_def)

text \<open>
  C3. The \<^verbatim>\<open>config\<close> property looks for \<^verbatim>\<open>.continue/config.yaml\<close> and then for
  \<^verbatim>\<open>.continue/config.json\<close> under the workspace directory. If the YAML path exists the
  result is what \<^verbatim>\<open>load_config\<close> gives for it, whether or not the JSON path exists;
  if only the JSON path exists the result is what \<^verbatim>\<open>load_config\<close> gives for that; if
  neither exists the result is the default \<^verbatim>\<open>ContinueConfig()\<close>. Nothing is merged, and
  the property changes nothing and asks the IDE nothing.
\<close>

theorem config_first_match:
  "(os_path_exists (os_path_join (workspace_directory i (host w)) [''.continue'', ''config.yaml'']) \<longrightarrow>
      outcome (config i os_path_exists load_config default_config w)
        = load_config (os_path_join (workspace_directory i (host w)) [''.continue'', ''config.yaml'']))
   \<and> (\<not> os_path_exists (os_path_join (workspace_directory i (host w)) [''.continue'', ''config.yaml''])
      \<and> os_path_exists (os_path_join (workspace_directory i (host w)) [''.continue'', ''config.json'']) \<longrightarrow>
      outcome (config i os_path_exists load_config default_config w)
        = load_config (os_path_join (workspace_directory i (host w)) [''.continue'', ''config.json'']))
   \<and> (\<not> os_path_exists (os_path_join (workspace_directory i (host w)) [''.continue'', ''config.yaml''])
      \<and> \<not> os_path_exists (os_path_join (workspace_directory i (host w)) [''.continue'', ''config.json'']) \<longrightarrow>
      outcome (config i os_path_exists load_config default_config w) = Inr default_config)
   \<and> world_after (config i os_path_exists load_config default_config w) = w
   \<and> calls (config i os_path_exists load_config default_config w) = []"
  by (simp add: config_def Let_def outcome_def world_after_def calls_def return_def)


theorem config_first_match_witness:
  "disk_with_both (os_path_join (workspace_directory sample_ide (host sample_world)) [''.continue'', ''config.yaml''])
   \<and> outcome (config sample_ide disk_with_both sample_load_config ''default'' sample_world)
       = Inr ''parsed /ws/.continue/config.yaml''
   \<and> \<not> disk_with_json (os_path_join (workspace_directory sample_ide (host sample_world)) [''.continue'', ''config.yaml''])
   \<and> disk_with_json (os_path_join (workspace_directory sample_ide (host sample_world)) [''.continue'', ''config.json''])
   \<and> outcome (config sample_ide disk_with_json sample_load_config ''default'' sample_world)
       = Inr ''parsed /ws/.continue/config.json''
   \<and> \<not> disk_with_neither (os_path_join (workspace_directory sample_ide (host sample_world)) [''.continue'', ''config.yaml''])
   \<and> \<not> disk_with_neither (os_path_join (workspace_directory sample_ide (host sample_world)) [''.continue'', ''config.json''])
   \<and> outcome (config sample_ide disk_with_neither sample_load_config ''default'' sample_world)
       = Inr ''default''"
proof -
  have d: "workspace_directory sample_ide (host sample_world) = ''/ws''"
    by (simp add: sample_ide_def)
  have p: "os_path_join ''/ws'' [''.continue'', ''config.yaml''] = ''/ws/.continue/config.yaml''"
    "os_path_join ''/ws'' [''.continue'', ''config.json''] = ''/ws/.continue/config.json''"
    using config_paths [of "''/ws''"] by simp_all
  note t1 = config_first_match [of disk_with_both sample_ide sample_world sample_load_config "''default''",
      unfolded d p]
  note t2 = config_first_match [of disk_with_json sample_ide sample_world sample_load_config "''default''",
      unfolded d p]
  note t3 = config_first_match [of disk_with_neither sample_ide sample_world sample_load_config "''default''",
      unfolded d p]
  show ?thesis
    using t1 t2 t3
    by (simp add: d p disk_with_both_def disk_with_json_def disk_with_neither_def
        sample_load_config_def)
qed

subsection \<open>The cached clients\<close>

lemma load_starcoder_calls:
  "load_starcoder i w = (Inr r, w2, t) \<Longrightarrow> t = [Call_getUserSecret ''HUGGING_FACE_TOKEN'']"
  by (auto simp: load_starcoder_def get_user_secret_def new_llm_def await_def ide_call_def
      split: prod.splits sum.splits)

lemma load_gpt35_calls:
  "load_gpt35 i w = (Inr r, w2, t) \<Longrightarrow> t = [Call_getUserSecret ''OPENAI_API_KEY'']"
  by (auto simp: load_gpt35_def get_user_secret_def new_llm_def await_def ide_call_def
      split: prod.splits sum.splits)

lemma starcoder_hit: "starcoder_cached (models w) = Some r \<Longrightarrow> starcoder i w = (Inr r, w, [])"
  by (simp add: starcoder_def return_def)

lemma gpt35_hit: "gpt35_cached (models w) = Some r \<Longrightarrow> gpt35 i w = (Inr r, w, [])"
  by (simp add: gpt35_def return_def)

lemma starcoder_miss:
  assumes "starcoder_cached (models w) = None" and "starcoder i w = (Inr r, w1, t1)"
  shows "starcoder_cached (models w1) = Some r \<and> t1 = [Call_getUserSecret ''HUGGING_FACE_TOKEN'']"
proof (cases "load_starcoder i w")
  case (fields res w2 t)
  show ?thesis
  proof (cases res)
    case (Inl e)
    with fields assms show ?thesis
      by (simp add: starcoder_def await_def)
  next
    case (Inr x)
    with fields assms load_starcoder_calls [of i w x w2 t] show ?thesis
      by (auto simp: starcoder_def await_def return_def)
  qed
qed

lemma gpt35_miss:
  assumes "gpt35_cached (models w) = None" and "gpt35 i w = (Inr r, w1, t1)"
  shows "gpt35_cached (models w1) = Some r \<and> t1 = [Call_getUserSecret ''OPENAI_API_KEY'']"
proof (cases "load_gpt35 i w")
  case (fields res w2 t)
  show ?thesis
  proof (cases res)
    case (Inl e)
    with fields assms show ?thesis
      by (simp add: gpt35_def await_def)
  next
    case (Inr x)
    with fields assms load_gpt35_calls [of i w x w2 t] show ?thesis
      by (auto simp: gpt35_def await_def return_def)
  qed
qed

lemma starcoder_twice:
  assumes "starcoder i w = (Inr r, w1, t1)"
  shows "starcoder i w1 = (Inr r, w1, [])"
    and "starcoder_cached (models w) = None \<Longrightarrow>
         secrets_fetched (t1 @ calls (starcoder i w1)) = [''HUGGING_FACE_TOKEN'']"
proof -
  show h: "starcoder i w1 = (Inr r, w1, [])"
  proof (cases "starcoder_cached (models w)")
    case None
    from starcoder_miss [OF None assms] show ?thesis
      by (simp add: starcoder_hit)
  next
    case (Some c)
    from starcoder_hit [OF Some, of i] assms show ?thesis
      by (simp add: starcoder_hit Some)
  qed
  assume "starcoder_cached (models w) = None"
  from starcoder_miss [OF this assms] h
  show "secrets_fetched (t1 @ calls (starcoder i w1)) = [''HUGGING_FACE_TOKEN'']"
    by (simp add: calls_def)
qed

lemma gpt35_twice:
  assumes "gpt35 i w = (Inr r, w1, t1)"
  shows "gpt35 i w1 = (Inr r, w1, [])"
    and "gpt35_cached (models w) = None \<Longrightarrow>
         secrets_fetched (t1 @ calls (gpt35 i w1)) = [''OPENAI_API_KEY'']"
proof -
  show h: "gpt35 i w1 = (Inr r, w1, [])"
  proof (cases "gpt35_cached (models w)")
    case None
    from gpt35_miss [OF None assms] show ?thesis
      by (simp add: gpt35_hit)
  next
    case (Some c)
    from gpt35_hit [OF Some, of i] assms show ?thesis
      by (simp add: gpt35_hit Some)
  qed
  assume "gpt35_cached (models w) = None"
  from gpt35_miss [OF this assms] h
  show "secrets_fetched (t1 @ calls (gpt35 i w1)) = [''OPENAI_API_KEY'']"
    by (simp add: calls_def)
qed

text \<open>
  C7. For \<^verbatim>\<open>starcoder\<close> and for \<^verbatim>\<open>gpt35\<close>: when an access returns a client, the next
  access returns the same object (same identity, same fields), changes nothing, allocates
  nothing and calls nobody; and when nothing was cached before the first of the two, the
  two accesses together fetch the accessor's secret exactly once.
\<close>

theorem models_accessors_cached:
  "(starcoder i w = (Inr r, w1, t1) \<longrightarrow>
      starcoder i w1 = (Inr r, w1, [])
      \<and> (starcoder_cached (models w) = None \<longrightarrow>
           secrets_fetched (t1 @ calls (starcoder i w1)) = [''HUGGING_FACE_TOKEN'']))
   \<and> (gpt35 i w = (Inr r, w1, t1) \<longrightarrow>
      gpt35 i w1 = (Inr r, w1, [])
      \<and> (gpt35_cached (models w) = None \<longrightarrow>
           secrets_fetched (t1 @ calls (gpt35 i w1)) = [''OPENAI_API_KEY'']))"
  using starcoder_twice [of i w r w1 t1] gpt35_twice [of i w r w1 t1] by blast

theorem models_accessors_cached_witness:
  "starcoder sample_ide sample_world
     = (Inr sample_starcoder,
        sample_world\<lparr>host := 1, allocated := 1,
          models := \<lparr>starcoder_cached = Some sample_starcoder, gpt35_cached = None\<rparr>\<rparr>,
        [Call_getUserSecret ''HUGGING_FACE_TOKEN''])
   \<and> starcoder sample_ide
        (sample_world\<lparr>host := 1, allocated := 1,
          models := \<lparr>starcoder_cached = Some sample_starcoder, gpt35_cached = None\<rparr>\<rparr>)
     = (Inr sample_starcoder,
        sample_world\<lparr>host := 1, allocated := 1,
          models := \<lparr>starcoder_cached = Some sample_starcoder, gpt35_cached = None\<rparr>\<rparr>, [])
   \<and> gpt35 sample_ide sample_world
     = (Inr sample_gpt35,
        sample_world\<lparr>host := 1, allocated := 1,
          models := \<lparr>starcoder_cached = None, gpt35_cached = Some sample_gpt35\<rparr>\<rparr>,
        [Call_getUserSecret ''OPENAI_API_KEY''])
   \<and> gpt35 sample_ide
        (sample_world\<lparr>host := 1, allocated := 1,
          models := \<lparr>starcoder_cached = None, gpt35_cached = Some sample_gpt35\<rparr>\<rparr>)
     = (Inr sample_gpt35,
        sample_world\<lparr>host := 1, allocated := 1,
          models := \<lparr>starcoder_cached = None, gpt35_cached = Some sample_gpt35\<rparr>\<rparr>, [])"
proof -
  have s: "starcoder sample_ide sample_world
     = (Inr sample_starcoder,
        sample_world\<lparr>host := 1, allocated := 1,
          models := \<lparr>starcoder_cached = Some sample_starcoder, gpt35_cached = None\<rparr>\<rparr>,
        [Call_getUserSecret ''HUGGING_FACE_TOKEN''])"
    by (simp add: starcoder_def load_starcoder_def get_user_secret_def new_llm_def await_def
        ide_call_def return_def sample_ide_def sample_world_def sample_starcoder_def)
  have g: "gpt35 sample_ide sample_world
     = (Inr sample_gpt35,
        sample_world\<lparr>host := 1, allocated := 1,
          models := \<lparr>starcoder_cached = None, gpt35_cached = Some sample_gpt35\<rparr>\<rparr>,
        [Call_getUserSecret ''OPENAI_API_KEY''])"
    by (simp add: gpt35_def load_gpt35_def get_user_secret_def new_llm_def await_def
        ide_call_def return_def sample_ide_def sample_world_def sample_gpt35_def)
  from models_accessors_cached [of sample_ide sample_world sample_starcoder _
      "[Call_getUserSecret ''HUGGING_FACE_TOKEN'']"] s
  have s2: "starcoder sample_ide
        (sample_world\<lparr>host := 1, allocated := 1,
          models := \<lparr>starcoder_cached = Some sample_starcoder, gpt35_cached = None\<rparr>\<rparr>)
     = (Inr sample_starcoder,
        sample_world\<lparr>host := 1, allocated := 1,
          models := \<lparr>starcoder_cached = Some sample_starcoder, gpt35_cached = None\<rparr>\<rparr>, [])"
    by blast
  from models_accessors_cached [of sample_ide sample_world sample_gpt35 _
      "[Call_getUserSecret ''OPENAI_API_KEY'']"] g
  have g2: "gpt35 sample_ide
        (sample_world\<lparr>host := 1, allocated := 1,
          models := \<lparr>starcoder_cached = None, gpt35_cached = Some sample_gpt35\<rparr>\<rparr>)
     = (Inr sample_gpt35,
        sample_world\<lparr>host := 1, allocated := 1,
          models := \<lparr>starcoder_cached = None, gpt35_cached = Some sample_gpt35\<rparr>\<rparr>, [])"
    by blast
  show ?thesis
    using s g s2 g2 by (simp only:) 
qed

subsection \<open>The chat context\<close>

lemma ChatMessage_user: "ChatMessage c ''user'' = Inr \<lparr>content = c, role = ''user''\<rparr>"
  by (simp add: ChatMessage_def ChatMessageRole_def)

lemma read_ranges_length:
  "read_ranges i rifs h = (Inr codes, h2) \<Longrightarrow> length codes = length rifs"
  by (induction rifs arbitrary: h codes) (auto split: prod.splits sum.splits)

lemma get_chat_context_loop_reads:
  "read_ranges i rifs (host w) = (Inr codes, h2) \<Longrightarrow>
   get_chat_context_loop i rifs acc w
     = (Inr (acc @ map (\<lambda>code. \<lparr>content = highlighted_text code, role = ''user''\<rparr>) codes),
        w\<lparr>host := h2\<rparr>, map Call_readRangeInFile rifs)"
proof (induction rifs arbitrary: w acc codes)
  case Nil
  then show ?case by (simp add: return_def)
next
  case (Cons rif rifs)
  from Cons.prems obtain code h1 rest where
    c: "readRangeInFile i rif (host w) = (Inr code, h1)"
    and r: "read_ranges i rifs h1 = (Inr rest, h2)"
    and cs: "codes = code # rest"
    by (auto split: prod.splits sum.splits)
  have "read_ranges i rifs (host (w\<lparr>host := h1\<rparr>)) = (Inr rest, h2)"
    using r by simp
  from Cons.IH [OF this, of "acc @ [\<lparr>content = highlighted_text code, role = ''user''\<rparr>]"] c cs
  show ?case
    by (simp add: await_def ide_call_def local_def ChatMessage_user)
qed

text \<open>
  C6. When the IDE reports its highlighted ranges and answers the request for the code
  of each of them, \<^verbatim>\<open>get_chat_context\<close> returns the transcript of the history
  (\<^verbatim>\<open>to_chat_history\<close>) followed by one message per range, in the order the IDE
  reported the ranges. The message of a range has the role \<^verbatim>\<open>user\<close>, and its content is
  the line \<^verbatim>\<open>The following code is highlighted:\<close>, a line of three backquotes, the code
  the IDE returned for that range, a line break and three backquotes. The method asks for
  the highlights once and then for each range in turn, and changes nothing but the IDE.
  With no range highlighted the result is the transcript itself.
\<close>

theorem get_chat_context_transcript_then_highlights:
  assumes "getHighlightedCode i (host w) = (Inr rifs, h1)"
    and "read_ranges i rifs h1 = (Inr codes, h2)"
  shows "outcome (get_chat_context i to_chat_history w)
           = Inr (to_chat_history (history w)
                  @ map (\<lambda>code.
                      \<lparr>content = ''The following code is highlighted:\<newline>```\<newline>''
                                  @ code @ ''\<newline>```'',
                       role = ''user''\<rparr>) codes)
         \<and> length codes = length rifs
         \<and> calls (get_chat_context i to_chat_history w)
           = Call_getHighlightedCode # map Call_readRangeInFile rifs
         \<and> world_after (get_chat_context i to_chat_history w) = w\<lparr>host := h2\<rparr>
         \<and> (rifs = [] \<longrightarrow>
              outcome (get_chat_context i to_chat_history w) = Inr (to_chat_history (history w)))"
proof -
  have l: "length codes = length rifs"
    using assms(2) by (rule read_ranges_length)
  have "read_ranges i rifs (host (w\<lparr>host := h1\<rparr>)) = (Inr codes, h2)"
    using assms(2) by simp
  note loop = get_chat_context_loop_reads [OF this, of "to_chat_history (history w)",
      unfolded highlighted_text_def]
  show ?thesis
    using assms(1) loop l
    by (auto simp: get_chat_context_def await_def ide_call_def outcome_def calls_def
        world_after_def Let_def)
qed

theorem get_chat_context_transcript_then_highlights_witness:
  "getHighlightedCode sample_ide (host sample_world) = (Inr sample_highlights, 1)
   \<and> read_ranges sample_ide sample_highlights 1 = (Inr [''code of /ws/a.py'', ''code of /ws/b.py''], 3)
   \<and> outcome (get_chat_context sample_ide sample_to_chat_history sample_world)
       = Inr [\<lparr>content = ''ran a step'', role = ''assistant''\<rparr>,
              \<lparr>content = ''The following code is highlighted:\<newline>```\<newline>code of /ws/a.py\<newline>```'',
               role = ''user''\<rparr>,
              \<lparr>content = ''The following code is highlighted:\<newline>```\<newline>code of /ws/b.py\<newline>```'',
               role = ''user''\<rparr>]
   \<and> getHighlightedCode quiet_ide (host sample_world) = (Inr [], 1)
   \<and> read_ranges quiet_ide [] 1 = (Inr [], 1)
   \<and> outcome (get_chat_context quiet_ide sample_to_chat_history sample_world)
       = Inr [\<lparr>content = ''ran a step'', role = ''assistant''\<rparr>]"
proof -
  have g: "getHighlightedCode sample_ide (host sample_world) = (Inr sample_highlights, 1)"
    by (simp add: sample_ide_def sample_world_def)
  have r: "read_ranges sample_ide sample_highlights 1
             = (Inr [''code of /ws/a.py'', ''code of /ws/b.py''], 3)"
    by (simp add: sample_ide_def sample_highlights_def numeral_3_eq_3)
  have g0: "getHighlightedCode quiet_ide (host sample_world) = (Inr [], 1)"
    by (simp add: quiet_ide_def sample_ide_def sample_world_def)
  have r0: "read_ranges quiet_ide [] 1 = (Inr [], 1)"
    by simp
  have t: "sample_to_chat_history (history sample_world)
             = [\<lparr>content = ''ran a step'', role = ''assistant''\<rparr>]"
    by (simp add: sample_to_chat_history_def sample_world_def new_step_def)
  note a = get_chat_context_transcript_then_highlights [OF g r, of sample_to_chat_history]
  note b = get_chat_context_transcript_then_highlights [OF g0 r0, of sample_to_chat_history]
  show ?thesis
    using a b by (simp only: g r g0 r0 t) simp
qed

subsection \<open>Adding to the chat context of the running step\<close>

text \<open>
  With a role of \<^verbatim>\<open>ChatMessageRole\<close> and a cursor that addresses a node,
  \<^verbatim>\<open>add_chat_context\<close> keeps the length of the timeline, its other nodes and the cursor,
  and the addressed node's step gains exactly one message at the end of its chat context,
  with the given content and role. With the role omitted it always raises, changes
  nothing and calls nobody.
\<close>

lemma add_chat_context_appends:
  assumes "py_index (timeline (history w)) (current_index (history w)) = Inr j"
    and "rl \<in> set ChatMessageRole"
  shows "outcome (add_chat_context cont (Some rl) w) = Inr ()"
    and "length (timeline (history (world_after (add_chat_context cont (Some rl) w))))
           = length (timeline (history w))"
    and "current_index (history (world_after (add_chat_context cont (Some rl) w)))
           = current_index (history w)"
    and "chat_context (step (timeline (history (world_after (add_chat_context cont (Some rl) w))) ! j))
           = chat_context (step (timeline (history w) ! j)) @ [\<lparr>content = cont, role = rl\<rparr>]"
    and "k \<noteq> j \<Longrightarrow> timeline (history (world_after (add_chat_context cont (Some rl) w))) ! k
           = timeline (history w) ! k"
proof -
  have "j < length (timeline (history w))"
    using assms(1) by (auto simp: py_index_def split: if_splits)
  then show "outcome (add_chat_context cont (Some rl) w) = Inr ()"
    and "length (timeline (history (world_after (add_chat_context cont (Some rl) w))))
           = length (timeline (history w))"
    and "current_index (history (world_after (add_chat_context cont (Some rl) w)))
           = current_index (history w)"
    and "chat_context (step (timeline (history (world_after (add_chat_context cont (Some rl) w))) ! j))
           = chat_context (step (timeline (history w) ! j)) @ [\<lparr>content = cont, role = rl\<rparr>]"
    and "k \<noteq> j \<Longrightarrow> timeline (history (world_after (add_chat_context cont (Some rl) w))) ! k
           = timeline (history w) ! k"
    using assms
    by (simp_all add: add_chat_context_def ChatMessage_def Let_def return_def outcome_def
        world_after_def)
qed

lemma add_chat_context_omitted_role_raises:
  "world_after (add_chat_context cont None w) = w"
  "calls (add_chat_context cont None w) = []"
  "outcome (add_chat_context cont None w)
     = (case py_index (timeline (history w)) (current_index (history w)) of
          Inl e \<Rightarrow> Inl e
        | Inr j \<Rightarrow> Inl ValidationError)"
  by (simp_all add: add_chat_context_def add_chat_context_default_role_def ChatMessage_def
      ChatMessageRole_def Let_def raise_def outcome_def world_after_def calls_def
      split: sum.splits)

text \<open>
  C1. A call of \<^verbatim>\<open>add_chat_context\<close> that omits the role should append to the node at
  \<^verbatim>\<open>current_index\<close> one message with the given content and the role \<^verbatim>\<open>assistant\<close>. On
  a history of one node, with the cursor on it, the call \<^verbatim>\<open>add_chat_context("hi")\<close>
  raises \<^verbatim>\<open>ValidationError\<close> instead and leaves the world as it was: the default of the
  role parameter is spelt \<^verbatim>\<open>assistent\<close>, which no \<^verbatim>\<open>ChatMessage\<close> accepts. The same
  call with the role \<^verbatim>\<open>assistant\<close> written out appends that one message.
\<close>

theorem add_chat_context_default_role_rejected:
  "py_index (timeline (history sample_world)) (current_index (history sample_world)) = Inr 0
   \<and> outcome (add_chat_context ''hi'' None sample_world) = Inl ValidationError
   \<and> world_after (add_chat_context ''hi'' None sample_world) = sample_world
   \<and> add_chat_context_default_role = ''assistent''
   \<and> outcome (add_chat_context ''hi'' (Some ''assistant'') sample_world) = Inr ()
   \<and> map (\<lambda>n. chat_context (step n))
        (timeline (history (world_after
           (add_chat_context ''hi'' (Some ''assistant'') sample_world))))
     = [[\<lparr>content = ''hi'', role = ''assistant''\<rparr>]]"
  by (simp add: add_chat_context_def add_chat_context_default_role_def ChatMessage_def
      ChatMessageRole_def py_index_def Let_def raise_def return_def outcome_def world_after_def
      sample_world_def new_step_def)

end
